theory Spec2Isabelle
  imports Main "HOL-Library.Word"
begin

section \<open>GWin32InputStream: an input stream over a Windows file handle\<close>

text \<open>
  A shallow embedding of \<^verbatim>\<open>gio/gwin32inputstream.c\<close>. The stream object is the
  private struct of two fields; the Windows calls, the error tables of GLib and the
  message catalogue are parameters of the model; every call that leaves the file is
  recorded in a list of events, so that statements about which calls are issued, and
  in which order, can be made.
\<close>

subsection \<open>C types\<close>

text \<open>
  \<^verbatim>\<open>gint\<close>, \<^verbatim>\<open>gboolean\<close> (a \<^verbatim>\<open>gint\<close>), \<^verbatim>\<open>BOOL\<close> and \<^verbatim>\<open>DWORD\<close> are 32 bits
  wide. \<^verbatim>\<open>gsize\<close>, \<^verbatim>\<open>gssize\<close> and pointers are taken at their width on 64-bit
  Windows. A \<^verbatim>\<open>gssize\<close> is read as a signed number with \<open>sint\<close>.
\<close>

type_synonym gint = "32 word"
type_synonym gboolean = "32 word"
type_synonym BOOL = "32 word"
type_synonym DWORD = "32 word"
type_synonym gsize = "64 word"
type_synonym gssize = "64 word"
type_synonym guint8 = "8 word"
type_synonym HANDLE = "64 word"
type_synonym GIOErrorEnum = "32 word"

text \<open>
  Modelled from the spec: the macro \<^verbatim>\<open>FALSE\<close> is declared in GLib's headers, which
  are not part of this file; it is the spec's false, in C the number 0.
\<close>

definition FALSE :: gboolean where
  "FALSE = 0"

text \<open>
  Modelled from the spec: the macro \<^verbatim>\<open>TRUE\<close> is declared in GLib's headers, which
  are not part of this file; it is the spec's true, in C the value of \<^verbatim>\<open>!FALSE\<close>.
\<close>

definition TRUE :: gboolean where
  "TRUE = 1"

text \<open>
  Modelled from the spec: the macro \<^verbatim>\<open>NULL\<close> is declared in the C headers, which
  are not part of this file; it is the spec's null handle, the pointer 0.
\<close>

definition NULL :: HANDLE where
  "NULL = 0"

text \<open>
  Modelled from the spec: the macro \<^verbatim>\<open>G_MAXINT\<close> is declared in GLib's configuration
  header, which is not part of this file; the spec gives the cap on a single transfer
  as the 32-bit signed maximum.
\<close>

definition G_MAXINT :: gint where
  "G_MAXINT = 2147483647"

subsection \<open>The stream object\<close>

text \<open>\<^verbatim>\<open>struct _GWin32InputStreamPrivate\<close>.\<close>

record GWin32InputStreamPrivate =
  handle :: HANDLE
  close_handle :: gboolean

text \<open>The property identifiers of the class.\<close>

datatype prop_id = PROP_0 | PROP_HANDLE | PROP_CLOSE_HANDLE

subsection \<open>Errors, cancellation tokens and events\<close>

text \<open>
  A \<^verbatim>\<open>GError\<close> carries a domain, a code and a message. The only domain this file
  uses is \<^verbatim>\<open>G_IO_ERROR\<close>. The out-parameter \<^verbatim>\<open>GError **error\<close> is modelled by the
  error the function sets, \<open>None\<close> when it sets none.
\<close>

datatype GQuark = G_IO_ERROR

record GError =
  domain :: GQuark
  code :: GIOErrorEnum
  message :: string

text \<open>
  A \<^verbatim>\<open>GCancellable *\<close> is \<open>None\<close> for the null pointer and otherwise holds the
  cancelled state of the token.
\<close>

type_synonym GCancellable = "bool option"

text \<open>
  What the functions of this file do outside of it: polling the cancellation token,
  the three Windows calls and the property notification.
\<close>

datatype event =
    Cancellable_polled
  | ReadFile_called HANDLE DWORD
  | CloseHandle_called HANDLE
  | GetLastError_called
  | Notified string

subsection \<open>The platform\<close>

text \<open>
  The Windows calls act on a state of the operating system of an arbitrary type \<open>'w\<close>.
  \<open>ReadFile h buffer nbytes w\<close> gives the \<^verbatim>\<open>BOOL\<close> result, the new contents of the
  buffer, the value stored in \<^verbatim>\<open>nread\<close> and the new state; \<open>GetLastError\<close> reads the
  last error code from the state. The two Windows error codes, the table from Windows
  error codes to \<^verbatim>\<open>GIOErrorEnum\<close>, the description of a Windows error code, the code
  \<^verbatim>\<open>G_IO_ERROR_CANCELLED\<close> and the message catalogue behind the macro \<^verbatim>\<open>_()\<close> are
  declared outside of this file and are parameters as well.
\<close>

record 'w platform =
  ReadFile :: "HANDLE \<Rightarrow> guint8 list \<Rightarrow> DWORD \<Rightarrow> 'w \<Rightarrow> BOOL \<times> guint8 list \<times> DWORD \<times> 'w"
  CloseHandle :: "HANDLE \<Rightarrow> 'w \<Rightarrow> BOOL \<times> 'w"
  GetLastError :: "'w \<Rightarrow> DWORD"
  ERROR_HANDLE_EOF :: gint
  ERROR_BROKEN_PIPE :: gint
  g_win32_error_message :: "gint \<Rightarrow> string"
  g_io_error_from_win32_error :: "gint \<Rightarrow> GIOErrorEnum"
  G_IO_ERROR_CANCELLED :: GIOErrorEnum
  gettext :: "string \<Rightarrow> string"

text \<open>
  The state: the private struct of the stream, the state of the operating system and
  the events so far, oldest first.
\<close>

record 'w state =
  priv :: GWin32InputStreamPrivate
  os_world :: 'w
  events :: "event list"

definition emit :: "event \<Rightarrow> 'w state \<Rightarrow> 'w state" where
  "emit e st = st\<lparr>events := events st @ [e]\<rparr>"

text \<open>The Windows calls, each recorded as it is issued.\<close>

definition call_ReadFile ::
  "'w platform \<Rightarrow> HANDLE \<Rightarrow> guint8 list \<Rightarrow> DWORD \<Rightarrow> 'w state \<Rightarrow> BOOL \<times> guint8 list \<times> DWORD \<times> 'w state" where
  "call_ReadFile p h buffer nbytes st =
     (case ReadFile p h buffer nbytes (os_world st) of
        (res, buffer', nread, w') \<Rightarrow>
          (res, buffer', nread, emit (ReadFile_called h nbytes) (st\<lparr>os_world := w'\<rparr>)))"

definition call_CloseHandle :: "'w platform \<Rightarrow> HANDLE \<Rightarrow> 'w state \<Rightarrow> BOOL \<times> 'w state" where
  "call_CloseHandle p h st =
     (case CloseHandle p h (os_world st) of
        (res, w') \<Rightarrow> (res, emit (CloseHandle_called h) (st\<lparr>os_world := w'\<rparr>)))"

definition call_GetLastError :: "'w platform \<Rightarrow> 'w state \<Rightarrow> DWORD \<times> 'w state" where
  "call_GetLastError p st = (GetLastError p (os_world st), emit GetLastError_called st)"

subsection \<open>Helpers of GLib and GObject\<close>

text \<open>
  Modelled from the spec: the formatting of a message, \<^verbatim>\<open>g_strdup_vprintf\<close>, is
  defined in GLib's string utilities, which are not part of this file. The spec has
  the message embed the platform's description: the message is the format with its
  \<^verbatim>\<open>%s\<close> directives replaced by the arguments in turn and \<^verbatim>\<open>%%\<close> by a percent
  sign. A directive without an argument is dropped, any other character is copied.
\<close>

fun g_strdup_vprintf :: "string \<Rightarrow> string list \<Rightarrow> string" where
  "g_strdup_vprintf [] args = []"
| "g_strdup_vprintf [c] args = [c]"
| "g_strdup_vprintf (c # d # fmt) args =
     (if c = CHR ''%'' \<and> d = CHR ''%'' then CHR ''%'' # g_strdup_vprintf fmt args
      else if c = CHR ''%'' \<and> d = CHR ''s'' then
        (case args of
           [] \<Rightarrow> g_strdup_vprintf fmt []
         | a # as \<Rightarrow> a @ g_strdup_vprintf fmt as)
      else c # g_strdup_vprintf (d # fmt) args)"

text \<open>
  Modelled from the spec: \<^verbatim>\<open>g_set_error\<close> is defined in GLib's error module, which is
  not part of this file. The spec has a failure carry an error kind and a message; the
  error set has the given domain and code and the formatted message.
\<close>

definition g_set_error :: "GQuark \<Rightarrow> GIOErrorEnum \<Rightarrow> string \<Rightarrow> string list \<Rightarrow> GError option" where
  "g_set_error d c fmt args = Some \<lparr>domain = d, code = c, message = g_strdup_vprintf fmt args\<rparr>"

text \<open>
  Modelled from the spec: \<^verbatim>\<open>g_cancellable_is_cancelled\<close> is defined in the
  cancellable module, which is not part of this file. The spec has a token be in the
  cancelled state or not; no token at all is not cancelled.
\<close>

definition g_cancellable_is_cancelled :: "GCancellable \<Rightarrow> bool" where
  "g_cancellable_is_cancelled cancellable =
     (case cancellable of None \<Rightarrow> False | Some cancelled \<Rightarrow> cancelled)"

text \<open>
  Modelled from the spec: \<^verbatim>\<open>g_cancellable_set_error_if_cancelled\<close> is defined in the
  cancellable module, which is not part of this file. The spec has it poll the token
  once; on a token in the cancelled state it sets a \<open>Cancelled\<close> error and answers
  true, otherwise it sets nothing and answers false.
\<close>

definition g_cancellable_set_error_if_cancelled ::
  "'w platform \<Rightarrow> GCancellable \<Rightarrow> 'w state \<Rightarrow> bool \<times> GError option \<times> 'w state" where
  "g_cancellable_set_error_if_cancelled p cancellable st =
     (if g_cancellable_is_cancelled cancellable
      then (True,
            g_set_error G_IO_ERROR (G_IO_ERROR_CANCELLED p) (gettext p ''Operation was cancelled'') [],
            emit Cancellable_polled st)
      else (False, None, emit Cancellable_polled st))"

text \<open>
  Modelled from the spec: \<^verbatim>\<open>GValue\<close> belongs to the object system, which is not part
  of this file. The spec's properties are a handle and a boolean: a value holds a
  pointer or a truth value.
\<close>

datatype GValue = GValue_pointer HANDLE | GValue_boolean bool

text \<open>
  Modelled from the spec: \<^verbatim>\<open>g_value_get_pointer\<close> belongs to the object system, which
  is not part of this file. It gives the pointer a value holds, and the null pointer
  for a value that holds none.
\<close>

definition g_value_get_pointer :: "GValue \<Rightarrow> HANDLE" where
  "g_value_get_pointer v = (case v of GValue_pointer h \<Rightarrow> h | GValue_boolean b \<Rightarrow> NULL)"

text \<open>
  Modelled from the spec: \<^verbatim>\<open>g_value_get_boolean\<close> belongs to the object system, which
  is not part of this file. It gives the truth value a value holds as \<^verbatim>\<open>TRUE\<close> or
  \<^verbatim>\<open>FALSE\<close>, and \<^verbatim>\<open>FALSE\<close> for a value that holds none.
\<close>

definition g_value_get_boolean :: "GValue \<Rightarrow> gboolean" where
  "g_value_get_boolean v =
     (case v of GValue_pointer h \<Rightarrow> FALSE | GValue_boolean b \<Rightarrow> if b then TRUE else FALSE)"

text \<open>
  Modelled from the spec: \<^verbatim>\<open>g_object_notify\<close> belongs to the object system, which is
  not part of this file. The spec has it emit one change notification for the named
  property.
\<close>

definition g_object_notify :: "string \<Rightarrow> 'w state \<Rightarrow> 'w state" where
  "g_object_notify property_name st = emit (Notified property_name) st"

subsection \<open>The functions of the file\<close>

text \<open>
  The property setter. For an identifier other than the two properties, here
  \<open>PROP_0\<close>, it only warns.
\<close>

definition g_win32_input_stream_set_property ::
  "GWin32InputStreamPrivate \<Rightarrow> prop_id \<Rightarrow> GValue \<Rightarrow> GWin32InputStreamPrivate" where
  "g_win32_input_stream_set_property win32_stream prop v =
     (case prop of
        PROP_HANDLE \<Rightarrow> win32_stream\<lparr>handle := g_value_get_pointer v\<rparr>
      | PROP_CLOSE_HANDLE \<Rightarrow> win32_stream\<lparr>close_handle := g_value_get_boolean v\<rparr>
      | PROP_0 \<Rightarrow> win32_stream)"

text \<open>The instance initialiser: the fields of a fresh object.\<close>

definition g_win32_input_stream_init :: GWin32InputStreamPrivate where
  "g_win32_input_stream_init = \<lparr>handle = NULL, close_handle = TRUE\<rparr>"

text \<open>
  Modelled from the spec: \<^verbatim>\<open>g_object_new\<close> belongs to the object system, which is not
  part of this file. The spec has construction store the two fields and do nothing
  else: it runs the instance initialiser and then sets the given properties in turn.
\<close>

definition g_object_new :: "(prop_id \<times> GValue) list \<Rightarrow> GWin32InputStreamPrivate" where
  "g_object_new props =
     fold (\<lambda>(prop, v) obj. g_win32_input_stream_set_property obj prop v) props
       g_win32_input_stream_init"

text \<open>
  \<^verbatim>\<open>g_return_val_if_fail (handle != NULL, NULL)\<close>: on a null handle the function
  returns the null pointer, here \<open>None\<close>, and builds no object. The flag is passed
  to the boolean property as its truth value.
\<close>

definition g_win32_input_stream_new :: "HANDLE \<Rightarrow> gboolean \<Rightarrow> GWin32InputStreamPrivate option" where
  "g_win32_input_stream_new h close_h =
     (if \<not> h \<noteq> NULL then None
      else Some (g_object_new
             [(PROP_HANDLE, GValue_pointer h),
              (PROP_CLOSE_HANDLE, GValue_boolean (close_h \<noteq> FALSE))]))"

text \<open>
  The receiver of the three accessors is the stream of the state, so the check
  \<^verbatim>\<open>G_IS_WIN32_INPUT_STREAM (stream)\<close> always passes.
\<close>

definition g_win32_input_stream_set_close_handle :: "gboolean \<Rightarrow> 'w state \<Rightarrow> 'w state" where
  "g_win32_input_stream_set_close_handle close_h st =
     (let close_h' = (if close_h \<noteq> FALSE then 1 else 0) in
      if close_handle (priv st) \<noteq> close_h'
      then g_object_notify ''close-handle'' (st\<lparr>priv := (priv st)\<lparr>close_handle := close_h'\<rparr>\<rparr>)
      else st)"

definition g_win32_input_stream_get_close_handle :: "'w state \<Rightarrow> gboolean" where
  "g_win32_input_stream_get_close_handle st = close_handle (priv st)"

definition g_win32_input_stream_get_handle :: "'w state \<Rightarrow> HANDLE" where
  "g_win32_input_stream_get_handle st = handle (priv st)"

text \<open>
  \<open>g_win32_input_stream_read\<close> gives the returned \<^verbatim>\<open>gssize\<close>, the contents of the
  buffer, the error it set and the new state. The comparison \<^verbatim>\<open>count > G_MAXINT\<close> is
  made at the type of \<^verbatim>\<open>count\<close>, the assignment \<^verbatim>\<open>nbytes = count\<close> keeps the low 32
  bits, and \<^verbatim>\<open>return nread\<close> widens an unsigned 32-bit number.
\<close>

definition g_win32_input_stream_read ::
  "'w platform \<Rightarrow> guint8 list \<Rightarrow> gsize \<Rightarrow> GCancellable \<Rightarrow> 'w state \<Rightarrow>
     gssize \<times> guint8 list \<times> GError option \<times> 'w state" where
  "g_win32_input_stream_read p buffer count cancellable st =
     (case g_cancellable_set_error_if_cancelled p cancellable st of
        (cancelled, err, st1) \<Rightarrow>
          if cancelled then (- 1, buffer, err, st1)
          else
            let nbytes = (if count > scast G_MAXINT then G_MAXINT else ucast count) in
            (case call_ReadFile p (handle (priv st1)) buffer nbytes st1 of
               (res, buffer', nread, st2) \<Rightarrow>
                 if res = 0 then
                   (case call_GetLastError p st2 of
                      (errsv, st3) \<Rightarrow>
                        if errsv = ERROR_HANDLE_EOF p \<or> errsv = ERROR_BROKEN_PIPE p
                        then (0, buffer', err, st3)
                        else
                          let emsg = g_win32_error_message p errsv in
                          (- 1, buffer',
                           g_set_error G_IO_ERROR (g_io_error_from_win32_error p errsv)
                             (gettext p ''Error reading from handle: %s'') [emsg],
                           st3))
                 else (ucast nread, buffer', err, st2)))"

text \<open>
  \<open>g_win32_input_stream_close\<close> gives the returned \<^verbatim>\<open>gboolean\<close>, the error it set and
  the new state. Its parameter \<^verbatim>\<open>cancellable\<close> is never used.
\<close>

definition g_win32_input_stream_close ::
  "'w platform \<Rightarrow> GCancellable \<Rightarrow> 'w state \<Rightarrow> gboolean \<times> GError option \<times> 'w state" where
  "g_win32_input_stream_close p cancellable st =
     (if close_handle (priv st) = 0 then (TRUE, None, st)
      else
        (case call_CloseHandle p (handle (priv st)) st of
           (res, st1) \<Rightarrow>
             if res = 0 then
               (case call_GetLastError p st1 of
                  (errsv, st2) \<Rightarrow>
                    let emsg = g_win32_error_message p errsv in
                    (FALSE,
                     g_set_error G_IO_ERROR (g_io_error_from_win32_error p errsv)
                       (gettext p ''Error closing handle: %s'') [emsg],
                     st2))
             else (TRUE, None, st1)))"

text \<open>The length that \<open>g_win32_input_stream_read\<close> passes to \<^verbatim>\<open>ReadFile\<close>.\<close>

abbreviation nbytes_of :: "gsize \<Rightarrow> DWORD" where
  "nbytes_of count \<equiv> (if count > scast G_MAXINT then G_MAXINT else ucast count)"

subsection \<open>Reading the events\<close>

fun is_ReadFile_called :: "event \<Rightarrow> bool" where
  "is_ReadFile_called (ReadFile_called h n) = True"
| "is_ReadFile_called e = False"

fun is_CloseHandle_called :: "event \<Rightarrow> bool" where
  "is_CloseHandle_called (CloseHandle_called h) = True"
| "is_CloseHandle_called e = False"

fun is_Notified :: "event \<Rightarrow> bool" where
  "is_Notified (Notified property_name) = True"
| "is_Notified e = False"

text \<open>The calls into the operating system.\<close>

fun is_os_call :: "event \<Rightarrow> bool" where
  "is_os_call (ReadFile_called h n) = True"
| "is_os_call (CloseHandle_called h) = True"
| "is_os_call GetLastError_called = True"
| "is_os_call e = False"

text \<open>The events of \<open>st'\<close> that came after those of \<open>st\<close>.\<close>

definition events_since :: "'w state \<Rightarrow> 'w state \<Rightarrow> event list" where
  "events_since st st' = drop (length (events st)) (events st')"

subsection \<open>A pipe as a concrete platform\<close>

text \<open>
  A small operating system with one pipe, on which the functions can be run: the
  handle is open or closed and the pipe holds the bytes not yet read. Reading from a
  closed handle fails with \<^verbatim>\<open>ERROR_INVALID_HANDLE\<close> (6), reading from the drained
  pipe with \<^verbatim>\<open>ERROR_BROKEN_PIPE\<close> (109); otherwise the read moves up to \<open>nbytes\<close>
  bytes to the front of the buffer. Closing a closed handle fails with
  \<^verbatim>\<open>ERROR_INVALID_HANDLE\<close>. The catalogue is the untranslated one.
\<close>

record pipe =
  pipe_open :: bool
  pipe_data :: "guint8 list"
  last_error :: DWORD

definition pipe_ReadFile ::
  "HANDLE \<Rightarrow> guint8 list \<Rightarrow> DWORD \<Rightarrow> pipe \<Rightarrow> BOOL \<times> guint8 list \<times> DWORD \<times> pipe" where
  "pipe_ReadFile h buffer nbytes w =
     (if \<not> pipe_open w then (0, buffer, 0, w\<lparr>last_error := 6\<rparr>)
      else if pipe_data w = [] then (0, buffer, 0, w\<lparr>last_error := 109\<rparr>)
      else
        let chunk = take (unat nbytes) (pipe_data w) in
        (1, chunk @ drop (length chunk) buffer, of_nat (length chunk),
         w\<lparr>pipe_data := drop (length chunk) (pipe_data w)\<rparr>))"

definition pipe_CloseHandle :: "HANDLE \<Rightarrow> pipe \<Rightarrow> BOOL \<times> pipe" where
  "pipe_CloseHandle h w =
     (if pipe_open w then (1, w\<lparr>pipe_open := False\<rparr>) else (0, w\<lparr>last_error := 6\<rparr>))"

definition pipe_platform :: "pipe platform" where
  "pipe_platform =
     \<lparr>ReadFile = pipe_ReadFile,
      CloseHandle = pipe_CloseHandle,
      GetLastError = last_error,
      ERROR_HANDLE_EOF = 38,
      ERROR_BROKEN_PIPE = 109,
      g_win32_error_message = (\<lambda>e. if e = 6 then ''The handle is invalid.'' else ''Unknown error''),
      g_io_error_from_win32_error = (\<lambda>e. if e = 6 then 13 else 0),
      G_IO_ERROR_CANCELLED = 19,
      gettext = (\<lambda>s. s)\<rparr>"

text \<open>A stream on handle 5 over such a pipe, before any event.\<close>

definition pipe_stream :: "gboolean \<Rightarrow> bool \<Rightarrow> guint8 list \<Rightarrow> pipe state" where
  "pipe_stream close_h is_open bytes =
     \<lparr>priv = \<lparr>handle = 5, close_handle = close_h\<rparr>,
      os_world = \<lparr>pipe_open = is_open, pipe_data = bytes, last_error = 0\<rparr>,
      events = []\<rparr>"

section \<open>Properties\<close>

subsection \<open>Auxiliary facts\<close>

lemma scast_G_MAXINT: "(scast G_MAXINT :: gsize) = 2147483647"
  by (simp add: G_MAXINT_def)

lemma unat_nbytes_of: "unat (nbytes_of count) = min (unat count) 2147483647"
proof (cases "count > scast G_MAXINT")
  case True
  then have "unat count > 2147483647"
    by (simp add: scast_G_MAXINT word_less_nat_alt)
  with True show ?thesis by (simp add: G_MAXINT_def)
next
  case False
  then have le: "unat count \<le> 2147483647"
    by (simp add: scast_G_MAXINT word_less_nat_alt not_less)
  then have "unat (ucast count :: DWORD) = unat count"
    by (simp add: unsigned_ucast_eq take_bit_nat_eq_self)
  with False le show ?thesis by simp
qed

lemma read_unfold:
  assumes nc: "\<not> g_cancellable_is_cancelled cancellable"
      and os: "ReadFile p (handle (priv st)) buffer (nbytes_of count) (os_world st) = (res, buffer', nread, w')"
  shows "g_win32_input_stream_read p buffer count cancellable st =
           (if res = 0 then
              (if GetLastError p w' = ERROR_HANDLE_EOF p \<or> GetLastError p w' = ERROR_BROKEN_PIPE p
               then 0 else - 1,
               buffer',
               if GetLastError p w' = ERROR_HANDLE_EOF p \<or> GetLastError p w' = ERROR_BROKEN_PIPE p
               then None
               else Some \<lparr>domain = G_IO_ERROR,
                          code = g_io_error_from_win32_error p (GetLastError p w'),
                          message = g_strdup_vprintf (gettext p ''Error reading from handle: %s'')
                                      [g_win32_error_message p (GetLastError p w')]\<rparr>,
               st\<lparr>os_world := w',
                  events := events st @ [Cancellable_polled,
                              ReadFile_called (handle (priv st)) (nbytes_of count), GetLastError_called]\<rparr>)
            else
              (ucast nread, buffer', None,
               st\<lparr>os_world := w',
                  events := events st @ [Cancellable_polled,
                              ReadFile_called (handle (priv st)) (nbytes_of count)]\<rparr>))"
proof (cases "count > scast G_MAXINT")
  case True
  with nc os show ?thesis
    by (simp add: g_win32_input_stream_read_def g_cancellable_set_error_if_cancelled_def
        call_ReadFile_def call_GetLastError_def emit_def g_set_error_def Let_def)
next
  case False
  with nc os show ?thesis
    by (simp add: g_win32_input_stream_read_def g_cancellable_set_error_if_cancelled_def
        call_ReadFile_def call_GetLastError_def emit_def g_set_error_def Let_def)
qed

lemma read_cancelled_unfold:
  assumes "g_cancellable_is_cancelled cancellable"
  shows "g_win32_input_stream_read p buffer count cancellable st =
           (- 1, buffer,
            Some \<lparr>domain = G_IO_ERROR, code = G_IO_ERROR_CANCELLED p,
                  message = g_strdup_vprintf (gettext p ''Operation was cancelled'') []\<rparr>,
            st\<lparr>events := events st @ [Cancellable_polled]\<rparr>)"
  using assms
  by (simp add: g_win32_input_stream_read_def g_cancellable_set_error_if_cancelled_def
      emit_def g_set_error_def)

lemma vprintf_embeds:
  "CHR ''%'' \<notin> set pre \<Longrightarrow>
   g_strdup_vprintf (pre @ CHR ''%'' # CHR ''s'' # post) (a # as) = pre @ a @ g_strdup_vprintf post as"
proof (induction pre)
  case Nil
  then show ?case by simp
next
  case (Cons c pre)
  then show ?case by (cases pre) auto
qed

lemma new_stores:
  "g_win32_input_stream_new h c =
     (if h = NULL then None
      else Some \<lparr>handle = h, close_handle = (if c \<noteq> FALSE then TRUE else FALSE)\<rparr>)"
  by (simp add: g_win32_input_stream_new_def g_object_new_def
      g_win32_input_stream_set_property_def g_win32_input_stream_init_def
      g_value_get_pointer_def g_value_get_boolean_def)

lemma close_priv: "priv (snd (snd (g_win32_input_stream_close p cancellable st))) = priv st"
  by (auto simp add: g_win32_input_stream_close_def call_CloseHandle_def call_GetLastError_def
      emit_def split: prod.splits)

lemma read_priv:
  "priv (snd (snd (snd (g_win32_input_stream_read p buffer count cancellable st)))) = priv st"
  by (auto simp add: g_win32_input_stream_read_def g_cancellable_set_error_if_cancelled_def
      call_ReadFile_def call_GetLastError_def emit_def Let_def split: prod.splits)

subsection \<open>Reading\<close>

text \<open>
  C1. When the token is not cancelled and \<^verbatim>\<open>ReadFile\<close> fails with the last error
  \<^verbatim>\<open>ERROR_HANDLE_EOF\<close> or \<^verbatim>\<open>ERROR_BROKEN_PIPE\<close>, the read returns 0 and sets no
  error; it has polled the token, called \<^verbatim>\<open>ReadFile\<close> once and asked for the last
  error.
\<close>

theorem read_eof_or_broken_pipe_is_zero:
  assumes "\<not> g_cancellable_is_cancelled cancellable"
      and "ReadFile p (handle (priv st)) buffer (nbytes_of count) (os_world st) = (res, buffer', nread, w')"
      and "res = 0"
      and "GetLastError p w' = ERROR_HANDLE_EOF p \<or> GetLastError p w' = ERROR_BROKEN_PIPE p"
  shows "g_win32_input_stream_read p buffer count cancellable st =
           (0, buffer', None,
            st\<lparr>os_world := w',
               events := events st @ [Cancellable_polled,
                           ReadFile_called (handle (priv st)) (nbytes_of count), GetLastError_called]\<rparr>)"
  using assms(3,4) by (simp add: read_unfold [OF assms(1,2)])

theorem read_eof_or_broken_pipe_is_zero_witness:
  "\<not> g_cancellable_is_cancelled None \<and>
   ReadFile pipe_platform 5 [7, 7] 2 (os_world (pipe_stream TRUE True []))
     = (0, [7, 7], 0, \<lparr>pipe_open = True, pipe_data = [], last_error = 109\<rparr>) \<and>
   GetLastError pipe_platform \<lparr>pipe_open = True, pipe_data = [], last_error = 109\<rparr>
     = ERROR_BROKEN_PIPE pipe_platform \<and>
   g_win32_input_stream_read pipe_platform [7, 7] 2 None (pipe_stream TRUE True [])
     = (0, [7, 7], None,
        \<lparr>priv = \<lparr>handle = 5, close_handle = TRUE\<rparr>,
         os_world = \<lparr>pipe_open = True, pipe_data = [], last_error = 109\<rparr>,
         events = [Cancellable_polled, ReadFile_called 5 2, GetLastError_called]\<rparr>)"
proof -
  have nc: "\<not> g_cancellable_is_cancelled None"
    by (simp add: g_cancellable_is_cancelled_def)
  have os: "ReadFile pipe_platform (handle (priv (pipe_stream TRUE True []))) [7, 7] (nbytes_of 2)
              (os_world (pipe_stream TRUE True []))
            = (0, [7, 7], 0, \<lparr>pipe_open = True, pipe_data = [], last_error = 109\<rparr>)"
    by (simp add: pipe_platform_def pipe_stream_def pipe_ReadFile_def G_MAXINT_def)
  have le: "GetLastError pipe_platform \<lparr>pipe_open = True, pipe_data = [], last_error = 109\<rparr>
              = ERROR_BROKEN_PIPE pipe_platform"
    by (simp add: pipe_platform_def)
  from read_eof_or_broken_pipe_is_zero [OF nc os refl disjI2 [OF le]] nc os le
  show ?thesis
    by (simp add: pipe_stream_def G_MAXINT_def)
qed

text \<open>
  C2. Every read polls the cancellation token before anything else. On a token that
  is already cancelled the read returns -1 with an error of the domain
  \<^verbatim>\<open>G_IO_ERROR\<close> and the code \<^verbatim>\<open>G_IO_ERROR_CANCELLED\<close>; the poll is its only
  event, so it issues no call to the operating system, whose state and the buffer
  are left as they were.
\<close>

theorem read_cancelled_issues_no_os_call:
  assumes "g_win32_input_stream_read p buffer count cancellable st = (r, b, e, st')"
  shows "(\<exists>es. events st' = events st @ Cancellable_polled # es) \<and>
         (g_cancellable_is_cancelled cancellable \<longrightarrow>
            sint r = - 1 \<and> b = buffer \<and>
            (\<exists>msg. e = Some \<lparr>domain = G_IO_ERROR, code = G_IO_ERROR_CANCELLED p, message = msg\<rparr>) \<and>
            events st' = events st @ [Cancellable_polled] \<and>
            filter is_os_call (events_since st st') = [] \<and>
            os_world st' = os_world st)"
proof (cases "g_cancellable_is_cancelled cancellable")
  case True
  from assms show ?thesis
    unfolding read_cancelled_unfold [OF True]
    by (auto simp add: events_since_def)
next
  case False
  obtain res buffer' nread w' where
    os: "ReadFile p (handle (priv st)) buffer (nbytes_of count) (os_world st) = (res, buffer', nread, w')"
    by (cases "ReadFile p (handle (priv st)) buffer (nbytes_of count) (os_world st)") auto
  from assms False show ?thesis
    unfolding read_unfold [OF False os]
    by (auto split: if_splits)
qed

theorem read_cancelled_issues_no_os_call_witness:
  "g_cancellable_is_cancelled (Some True) \<and>
   g_win32_input_stream_read pipe_platform [7, 7] 2 (Some True) (pipe_stream TRUE True [1, 2, 3])
     = (- 1, [7, 7],
        Some \<lparr>domain = G_IO_ERROR, code = 19, message = ''Operation was cancelled''\<rparr>,
        \<lparr>priv = \<lparr>handle = 5, close_handle = TRUE\<rparr>,
         os_world = \<lparr>pipe_open = True, pipe_data = [1, 2, 3], last_error = 0\<rparr>,
         events = [Cancellable_polled]\<rparr>) \<and>
   filter is_os_call
     (events_since (pipe_stream TRUE True [1, 2, 3])
        \<lparr>priv = \<lparr>handle = 5, close_handle = TRUE\<rparr>,
         os_world = \<lparr>pipe_open = True, pipe_data = [1, 2, 3], last_error = 0\<rparr>,
         events = [Cancellable_polled]\<rparr>) = []"
proof -
  have c: "g_cancellable_is_cancelled (Some True)"
    by (simp add: g_cancellable_is_cancelled_def)
  have run: "g_win32_input_stream_read pipe_platform [7, 7] 2 (Some True) (pipe_stream TRUE True [1, 2, 3])
     = (- 1, [7, 7],
        Some \<lparr>domain = G_IO_ERROR, code = 19, message = ''Operation was cancelled''\<rparr>,
        \<lparr>priv = \<lparr>handle = 5, close_handle = TRUE\<rparr>,
         os_world = \<lparr>pipe_open = True, pipe_data = [1, 2, 3], last_error = 0\<rparr>,
         events = [Cancellable_polled]\<rparr>)"
    by (simp add: g_win32_input_stream_read_def g_cancellable_set_error_if_cancelled_def
        g_cancellable_is_cancelled_def g_set_error_def emit_def pipe_platform_def pipe_stream_def)
  from read_cancelled_issues_no_os_call [OF run] c run show ?thesis
    by (simp add: pipe_stream_def events_since_def)
qed

text \<open>
  C5. On a token that is not cancelled the read calls \<^verbatim>\<open>ReadFile\<close> exactly once,
  and the length it passes is the smaller of the requested count and
  \<open>2\<^sup>3\<^sup>1 - 1\<close>. Whatever the count, a \<^verbatim>\<open>ReadFile\<close> that succeeds makes the read
  return the number of bytes read, with no error; when \<^verbatim>\<open>ReadFile\<close> reads no more
  than it was asked for, that number lies between 0 and \<open>2\<^sup>3\<^sup>1 - 1\<close>.
\<close>

theorem read_clamps_count:
  assumes nc: "\<not> g_cancellable_is_cancelled cancellable"
      and os: "ReadFile p (handle (priv st)) buffer (nbytes_of count) (os_world st) = (res, buffer', nread, w')"
      and run: "g_win32_input_stream_read p buffer count cancellable st = (r, b, e, st')"
  shows "unat (nbytes_of count) = min (unat count) 2147483647 \<and>
         filter is_ReadFile_called (events_since st st')
           = [ReadFile_called (handle (priv st)) (nbytes_of count)] \<and>
         (res \<noteq> 0 \<longrightarrow> r = ucast nread \<and> sint r = uint nread \<and> b = buffer' \<and> e = None) \<and>
         (res \<noteq> 0 \<and> nread \<le> nbytes_of count \<longrightarrow> 0 \<le> sint r \<and> sint r \<le> 2147483647)"
proof -
  note eq = run [unfolded read_unfold [OF nc os]]
  have calls: "filter is_ReadFile_called (events_since st st')
                 = [ReadFile_called (handle (priv st)) (nbytes_of count)]"
    using eq by (auto simp add: events_since_def split: if_splits)
  have wide: "sint (ucast nread :: gssize) = uint nread"
  proof -
    have "uint nread < 2 ^ 32"
      using uint_lt2p [of nread] by simp
    then have "uint nread < 2 ^ 63" by simp
    moreover have "- (2 ^ 63) \<le> uint nread"
    proof -
      have "- (2 ^ 63) \<le> (0::int)" by simp
      also have "(0::int) \<le> uint nread" by simp
      finally show ?thesis .
    qed
    ultimately show ?thesis
      by (simp add: signed_ucast_eq signed_take_bit_int_eq_self)
  qed
  have ok: "r = ucast nread \<and> sint r = uint nread \<and> b = buffer' \<and> e = None" if "res \<noteq> 0"
    using eq that wide by simp
  have bound: "0 \<le> sint r \<and> sint r \<le> 2147483647" if "res \<noteq> 0" "nread \<le> nbytes_of count"
  proof -
    from that(2) have "unat nread \<le> unat (nbytes_of count)"
      unfolding word_le_nat_alt .
    then have "unat nread \<le> 2147483647"
      unfolding unat_nbytes_of by simp
    then have "int (unat nread) \<le> int 2147483647"
      by (rule iffD2 [OF of_nat_le_iff])
    then have "uint nread \<le> 2147483647"
      unfolding uint_nat by simp
    moreover from ok [OF that(1)] have "sint r = uint nread" by blast
    moreover have "0 \<le> uint nread" by simp
    ultimately show ?thesis by presburger
  qed
  from unat_nbytes_of [of count] calls ok bound show ?thesis by blast
qed

theorem read_clamps_count_witness:
  "\<not> g_cancellable_is_cancelled None \<and>
   unat (nbytes_of 1099511627775) = min (unat (1099511627775 :: gsize)) 2147483647 \<and>
   ReadFile pipe_platform 5 [0, 0, 0, 0] 2147483647 (os_world (pipe_stream TRUE True [1, 2, 3]))
     = (1, [1, 2, 3, 0], 3, \<lparr>pipe_open = True, pipe_data = [], last_error = 0\<rparr>) \<and>
   g_win32_input_stream_read pipe_platform [0, 0, 0, 0] 1099511627775 None
       (pipe_stream TRUE True [1, 2, 3])
     = (3, [1, 2, 3, 0], None,
        \<lparr>priv = \<lparr>handle = 5, close_handle = TRUE\<rparr>,
         os_world = \<lparr>pipe_open = True, pipe_data = [], last_error = 0\<rparr>,
         events = [Cancellable_polled, ReadFile_called 5 2147483647]\<rparr>) \<and>
   (3 :: DWORD) \<le> 2147483647 \<and> sint (3 :: gssize) \<le> 2147483647"
proof -
  have nc: "\<not> g_cancellable_is_cancelled None"
    by (simp add: g_cancellable_is_cancelled_def)
  have big: "nbytes_of 1099511627775 = 2147483647"
    by (simp add: G_MAXINT_def)
  have os: "ReadFile pipe_platform (handle (priv (pipe_stream TRUE True [1, 2, 3]))) [0, 0, 0, 0]
              (nbytes_of 1099511627775) (os_world (pipe_stream TRUE True [1, 2, 3]))
            = (1, [1, 2, 3, 0], 3, \<lparr>pipe_open = True, pipe_data = [], last_error = 0\<rparr>)"
    unfolding big by (simp add: pipe_platform_def pipe_stream_def pipe_ReadFile_def)
  have run: "g_win32_input_stream_read pipe_platform [0, 0, 0, 0] 1099511627775 None
               (pipe_stream TRUE True [1, 2, 3])
             = (3, [1, 2, 3, 0], None,
                \<lparr>priv = \<lparr>handle = 5, close_handle = TRUE\<rparr>,
                 os_world = \<lparr>pipe_open = True, pipe_data = [], last_error = 0\<rparr>,
                 events = [Cancellable_polled, ReadFile_called 5 2147483647]\<rparr>)"
    unfolding read_unfold [OF nc os] big by (simp add: pipe_stream_def)
  from read_clamps_count [OF nc os run] nc os run show ?thesis
    unfolding big by (simp add: pipe_stream_def)
qed

text \<open>
  C7. When the token is not cancelled and \<^verbatim>\<open>ReadFile\<close> fails with a last error
  other than \<^verbatim>\<open>ERROR_HANDLE_EOF\<close> and \<^verbatim>\<open>ERROR_BROKEN_PIPE\<close>, the read returns -1
  with an error of the domain \<^verbatim>\<open>G_IO_ERROR\<close> whose code is that Windows error
  mapped by \<open>g_io_error_from_win32_error\<close> and whose message is the catalogue's
  entry for \<^verbatim>\<open>Error reading from handle: %s\<close> filled with the description of the
  error; the description occurs in the message whenever the entry keeps the
  directive.
\<close>

theorem read_failure_is_translated:
  assumes nc: "\<not> g_cancellable_is_cancelled cancellable"
      and os: "ReadFile p (handle (priv st)) buffer (nbytes_of count) (os_world st) = (res, buffer', nread, w')"
      and fail: "res = 0"
      and errsv: "GetLastError p w' = errsv"
      and other: "errsv \<noteq> ERROR_HANDLE_EOF p" "errsv \<noteq> ERROR_BROKEN_PIPE p"
      and run: "g_win32_input_stream_read p buffer count cancellable st = (r, b, e, st')"
  shows "sint r = - 1 \<and>
         e = Some \<lparr>domain = G_IO_ERROR,
                   code = g_io_error_from_win32_error p errsv,
                   message = g_strdup_vprintf (gettext p ''Error reading from handle: %s'')
                               [g_win32_error_message p errsv]\<rparr> \<and>
         (\<forall>pre post. gettext p ''Error reading from handle: %s'' = pre @ ''%s'' @ post \<and>
              CHR ''%'' \<notin> set pre \<longrightarrow>
            (\<exists>rest. map_option message e = Some (pre @ g_win32_error_message p errsv @ rest)))"
proof -
  from run fail errsv other have r: "r = - 1"
    and e: "e = Some \<lparr>domain = G_IO_ERROR,
                   code = g_io_error_from_win32_error p errsv,
                   message = g_strdup_vprintf (gettext p ''Error reading from handle: %s'')
                               [g_win32_error_message p errsv]\<rparr>"
    unfolding read_unfold [OF nc os] by simp_all
  have emb: "\<exists>rest. map_option message e = Some (pre @ g_win32_error_message p errsv @ rest)"
    if "gettext p ''Error reading from handle: %s'' = pre @ ''%s'' @ post" "CHR ''%'' \<notin> set pre"
    for pre post
    using that vprintf_embeds [OF that(2), of post "g_win32_error_message p errsv" "[]"]
    by (simp add: e)
  from r e emb show ?thesis by simp
qed

theorem read_failure_is_translated_witness:
  "\<not> g_cancellable_is_cancelled None \<and>
   ReadFile pipe_platform 5 [7, 7] 2 (os_world (pipe_stream TRUE False []))
     = (0, [7, 7], 0, \<lparr>pipe_open = False, pipe_data = [], last_error = 6\<rparr>) \<and>
   GetLastError pipe_platform \<lparr>pipe_open = False, pipe_data = [], last_error = 6\<rparr> = 6 \<and>
   6 \<noteq> ERROR_HANDLE_EOF pipe_platform \<and> 6 \<noteq> ERROR_BROKEN_PIPE pipe_platform \<and>
   g_win32_error_message pipe_platform 6 = ''The handle is invalid.'' \<and>
   gettext pipe_platform ''Error reading from handle: %s''
     = ''Error reading from handle: '' @ ''%s'' @ [] \<and>
   CHR ''%'' \<notin> set ''Error reading from handle: '' \<and>
   g_win32_input_stream_read pipe_platform [7, 7] 2 None (pipe_stream TRUE False [])
     = (- 1, [7, 7],
        Some \<lparr>domain = G_IO_ERROR, code = 13,
              message = ''Error reading from handle: The handle is invalid.''\<rparr>,
        \<lparr>priv = \<lparr>handle = 5, close_handle = TRUE\<rparr>,
         os_world = \<lparr>pipe_open = False, pipe_data = [], last_error = 6\<rparr>,
         events = [Cancellable_polled, ReadFile_called 5 2, GetLastError_called]\<rparr>)"
proof -
  have nc: "\<not> g_cancellable_is_cancelled None"
    by (simp add: g_cancellable_is_cancelled_def)
  have small: "nbytes_of 2 = 2"
    by (simp add: G_MAXINT_def)
  have os: "ReadFile pipe_platform (handle (priv (pipe_stream TRUE False []))) [7, 7] (nbytes_of 2)
              (os_world (pipe_stream TRUE False []))
            = (0, [7, 7], 0, \<lparr>pipe_open = False, pipe_data = [], last_error = 6\<rparr>)"
    unfolding small by (simp add: pipe_platform_def pipe_stream_def pipe_ReadFile_def)
  have le: "GetLastError pipe_platform \<lparr>pipe_open = False, pipe_data = [], last_error = 6\<rparr> = 6"
    by (simp add: pipe_platform_def)
  have o1: "6 \<noteq> ERROR_HANDLE_EOF pipe_platform" and o2: "6 \<noteq> ERROR_BROKEN_PIPE pipe_platform"
    by (simp_all add: pipe_platform_def)
  have msg: "g_win32_error_message pipe_platform 6 = ''The handle is invalid.''"
    by (simp add: pipe_platform_def)
  have run: "g_win32_input_stream_read pipe_platform [7, 7] 2 None (pipe_stream TRUE False [])
     = (- 1, [7, 7],
        Some \<lparr>domain = G_IO_ERROR, code = 13,
              message = ''Error reading from handle: The handle is invalid.''\<rparr>,
        \<lparr>priv = \<lparr>handle = 5, close_handle = TRUE\<rparr>,
         os_world = \<lparr>pipe_open = False, pipe_data = [], last_error = 6\<rparr>,
         events = [Cancellable_polled, ReadFile_called 5 2, GetLastError_called]\<rparr>)"
    unfolding read_unfold [OF nc os] small by (simp add: pipe_platform_def pipe_stream_def)
  have cat: "gettext pipe_platform ''Error reading from handle: %s''
               = ''Error reading from handle: '' @ ''%s'' @ []"
    by (simp add: pipe_platform_def)
  have pre: "CHR ''%'' \<notin> set ''Error reading from handle: ''"
    by simp
  from read_failure_is_translated [OF nc os refl le o1 o2 run] nc os le o1 o2 msg cat pre run
  show ?thesis
    unfolding small by (simp add: pipe_stream_def)
qed

subsection \<open>Closing\<close>

text \<open>
  C3. When the flag \<open>close_handle\<close> is false, closing returns \<^verbatim>\<open>TRUE\<close> with no
  error and leaves the whole state as it was, for every cancellation token: no
  event is added, so \<^verbatim>\<open>CloseHandle\<close> is not called and the token is not polled.
\<close>

theorem close_not_owned_is_noop:
  assumes "close_handle (priv st) = FALSE"
  shows "g_win32_input_stream_close p cancellable st = (TRUE, None, st)"
  using assms by (simp add: g_win32_input_stream_close_def FALSE_def)

theorem close_not_owned_is_noop_witness:
  "close_handle (priv (pipe_stream FALSE True [1, 2, 3])) = FALSE \<and>
   g_win32_input_stream_close pipe_platform (Some True) (pipe_stream FALSE True [1, 2, 3])
     = (TRUE, None, pipe_stream FALSE True [1, 2, 3]) \<and>
   g_win32_input_stream_close pipe_platform None (pipe_stream FALSE True [1, 2, 3])
     = (TRUE, None, pipe_stream FALSE True [1, 2, 3]) \<and>
   events (pipe_stream FALSE True [1, 2, 3]) = []"
proof -
  have h: "close_handle (priv (pipe_stream FALSE True [1, 2, 3])) = FALSE"
    by (simp add: pipe_stream_def)
  from close_not_owned_is_noop [OF h, of pipe_platform "Some True"]
       close_not_owned_is_noop [OF h, of pipe_platform None] h
  show ?thesis by (simp add: pipe_stream_def)
qed

text \<open>
  C4. When the flag \<open>close_handle\<close> is not false, closing calls \<^verbatim>\<open>CloseHandle\<close>
  exactly once, on the handle of the stream. If the call succeeds, closing returns
  \<^verbatim>\<open>TRUE\<close> with no error. If it fails, closing returns \<^verbatim>\<open>FALSE\<close> with an error
  of the domain \<^verbatim>\<open>G_IO_ERROR\<close> whose code is the last Windows error mapped by
  \<open>g_io_error_from_win32_error\<close> and whose message is the catalogue's entry for
  \<^verbatim>\<open>Error closing handle: %s\<close> filled with the description of that error; the
  description occurs in the message whenever the entry keeps the directive.
\<close>

theorem close_owned_releases_once:
  assumes own: "close_handle (priv st) \<noteq> FALSE"
      and os: "CloseHandle p (handle (priv st)) (os_world st) = (res, w')"
      and run: "g_win32_input_stream_close p cancellable st = (r, e, st')"
  shows "events_since st st' =
           CloseHandle_called (handle (priv st)) # (if res = 0 then [GetLastError_called] else []) \<and>
         filter is_CloseHandle_called (events_since st st') = [CloseHandle_called (handle (priv st))] \<and>
         os_world st' = w' \<and>
         (res \<noteq> 0 \<longrightarrow> r = TRUE \<and> e = None) \<and>
         (res = 0 \<longrightarrow>
            r = FALSE \<and>
            e = Some \<lparr>domain = G_IO_ERROR,
                      code = g_io_error_from_win32_error p (GetLastError p w'),
                      message = g_strdup_vprintf (gettext p ''Error closing handle: %s'')
                                  [g_win32_error_message p (GetLastError p w')]\<rparr> \<and>
            (\<forall>pre post. gettext p ''Error closing handle: %s'' = pre @ ''%s'' @ post \<and>
                 CHR ''%'' \<notin> set pre \<longrightarrow>
               (\<exists>rest. map_option message e = Some (pre @ g_win32_error_message p (GetLastError p w') @ rest))))"
proof -
  have eq: "g_win32_input_stream_close p cancellable st =
           (if res \<noteq> 0
            then (TRUE, None,
                  st\<lparr>os_world := w', events := events st @ [CloseHandle_called (handle (priv st))]\<rparr>)
            else (FALSE,
                  Some \<lparr>domain = G_IO_ERROR,
                        code = g_io_error_from_win32_error p (GetLastError p w'),
                        message = g_strdup_vprintf (gettext p ''Error closing handle: %s'')
                                    [g_win32_error_message p (GetLastError p w')]\<rparr>,
                  st\<lparr>os_world := w',
                     events := events st @ [CloseHandle_called (handle (priv st)), GetLastError_called]\<rparr>))"
    using own os
    by (simp add: g_win32_input_stream_close_def call_CloseHandle_def call_GetLastError_def
        emit_def g_set_error_def FALSE_def Let_def)
  show ?thesis
  proof (cases "res = 0")
    case True
    with run eq have r: "r = FALSE"
      and e: "e = Some \<lparr>domain = G_IO_ERROR,
                      code = g_io_error_from_win32_error p (GetLastError p w'),
                      message = g_strdup_vprintf (gettext p ''Error closing handle: %s'')
                                  [g_win32_error_message p (GetLastError p w')]\<rparr>"
      and st': "st' = st\<lparr>os_world := w',
                     events := events st @ [CloseHandle_called (handle (priv st)), GetLastError_called]\<rparr>"
      by simp_all
    have emb: "\<exists>rest. map_option message e = Some (pre @ g_win32_error_message p (GetLastError p w') @ rest)"
      if "gettext p ''Error closing handle: %s'' = pre @ ''%s'' @ post" "CHR ''%'' \<notin> set pre"
      for pre post
      using that vprintf_embeds [OF that(2), of post "g_win32_error_message p (GetLastError p w')" "[]"]
      by (simp add: e)
    from True r e st' emb show ?thesis
      by (simp add: events_since_def)
  next
    case False
    with run eq show ?thesis
      by (auto simp add: events_since_def)
  qed
qed

theorem close_owned_releases_once_witness:
  "close_handle (priv (pipe_stream TRUE True [])) \<noteq> FALSE \<and>
   CloseHandle pipe_platform 5 (os_world (pipe_stream TRUE True []))
     = (1, \<lparr>pipe_open = False, pipe_data = [], last_error = 0\<rparr>) \<and>
   g_win32_input_stream_close pipe_platform None (pipe_stream TRUE True [])
     = (TRUE, None,
        \<lparr>priv = \<lparr>handle = 5, close_handle = TRUE\<rparr>,
         os_world = \<lparr>pipe_open = False, pipe_data = [], last_error = 0\<rparr>,
         events = [CloseHandle_called 5]\<rparr>) \<and>
   close_handle (priv (pipe_stream TRUE False [])) \<noteq> FALSE \<and>
   CloseHandle pipe_platform 5 (os_world (pipe_stream TRUE False []))
     = (0, \<lparr>pipe_open = False, pipe_data = [], last_error = 6\<rparr>) \<and>
   gettext pipe_platform ''Error closing handle: %s'' = ''Error closing handle: '' @ ''%s'' @ [] \<and>
   CHR ''%'' \<notin> set ''Error closing handle: '' \<and>
   g_win32_error_message pipe_platform 6 = ''The handle is invalid.'' \<and>
   g_win32_input_stream_close pipe_platform None (pipe_stream TRUE False [])
     = (FALSE,
        Some \<lparr>domain = G_IO_ERROR, code = 13,
              message = ''Error closing handle: The handle is invalid.''\<rparr>,
        \<lparr>priv = \<lparr>handle = 5, close_handle = TRUE\<rparr>,
         os_world = \<lparr>pipe_open = False, pipe_data = [], last_error = 6\<rparr>,
         events = [CloseHandle_called 5, GetLastError_called]\<rparr>)"
proof -
  have own: "close_handle (priv (pipe_stream TRUE is_open [])) \<noteq> FALSE" for is_open
    by (simp add: pipe_stream_def TRUE_def FALSE_def)
  have os1: "CloseHandle pipe_platform (handle (priv (pipe_stream TRUE True [])))
               (os_world (pipe_stream TRUE True []))
             = (1, \<lparr>pipe_open = False, pipe_data = [], last_error = 0\<rparr>)"
    by (simp add: pipe_platform_def pipe_stream_def pipe_CloseHandle_def)
  have os2: "CloseHandle pipe_platform (handle (priv (pipe_stream TRUE False [])))
               (os_world (pipe_stream TRUE False []))
             = (0, \<lparr>pipe_open = False, pipe_data = [], last_error = 6\<rparr>)"
    by (simp add: pipe_platform_def pipe_stream_def pipe_CloseHandle_def)
  have run1: "g_win32_input_stream_close pipe_platform None (pipe_stream TRUE True [])
     = (TRUE, None,
        \<lparr>priv = \<lparr>handle = 5, close_handle = TRUE\<rparr>,
         os_world = \<lparr>pipe_open = False, pipe_data = [], last_error = 0\<rparr>,
         events = [CloseHandle_called 5]\<rparr>)"
    by (simp add: g_win32_input_stream_close_def call_CloseHandle_def emit_def
        pipe_platform_def pipe_stream_def pipe_CloseHandle_def TRUE_def)
  have run2: "g_win32_input_stream_close pipe_platform None (pipe_stream TRUE False [])
     = (FALSE,
        Some \<lparr>domain = G_IO_ERROR, code = 13,
              message = ''Error closing handle: The handle is invalid.''\<rparr>,
        \<lparr>priv = \<lparr>handle = 5, close_handle = TRUE\<rparr>,
         os_world = \<lparr>pipe_open = False, pipe_data = [], last_error = 6\<rparr>,
         events = [CloseHandle_called 5, GetLastError_called]\<rparr>)"
    by (simp add: g_win32_input_stream_close_def call_CloseHandle_def call_GetLastError_def
        emit_def g_set_error_def pipe_platform_def pipe_stream_def pipe_CloseHandle_def TRUE_def)
  have cat: "gettext pipe_platform ''Error closing handle: %s''
               = ''Error closing handle: '' @ ''%s'' @ []"
    by (simp add: pipe_platform_def)
  have pre: "CHR ''%'' \<notin> set ''Error closing handle: ''"
    by simp
  have msg: "g_win32_error_message pipe_platform 6 = ''The handle is invalid.''"
    by (simp add: pipe_platform_def)
  from close_owned_releases_once [OF own os1 run1] close_owned_releases_once [OF own os2 run2]
    own [of True] own [of False] os1 os2 cat pre msg run1 run2
  show ?thesis by (simp add: pipe_stream_def)
qed

text \<open>
  C10. Closing does not change the fields of the stream, whatever its outcome:
  afterwards the handle and the flag read back as before, and a stream that was
  constructed on the handle \<open>h\<close> still gives \<open>h\<close>, which is not null.
\<close>

theorem close_keeps_fields:
  assumes "g_win32_input_stream_close p cancellable st = (r, e, st')"
  shows "priv st' = priv st \<and>
         g_win32_input_stream_get_handle st' = g_win32_input_stream_get_handle st \<and>
         g_win32_input_stream_get_close_handle st' = g_win32_input_stream_get_close_handle st \<and>
         (\<forall>h c. g_win32_input_stream_new h c = Some (priv st) \<longrightarrow>
            g_win32_input_stream_get_handle st' = h \<and> g_win32_input_stream_get_handle st' \<noteq> NULL)"
proof -
  from close_priv [of p cancellable st] assms have same: "priv st' = priv st"
    by simp
  have "handle (priv st) = h \<and> h \<noteq> NULL"
    if new: "g_win32_input_stream_new h c = Some (priv st)" for h c
  proof -
    from new have nonnull: "h \<noteq> NULL"
      by (auto simp add: new_stores split: if_splits)
    with new have "priv st = \<lparr>handle = h, close_handle = (if c \<noteq> FALSE then TRUE else FALSE)\<rparr>"
      by (simp add: new_stores)
    then have "handle (priv st) = h"
      by (cases "priv st") simp
    with nonnull show ?thesis by simp
  qed
  with same show ?thesis
    by (simp add: g_win32_input_stream_get_handle_def g_win32_input_stream_get_close_handle_def)
qed

theorem close_keeps_fields_witness:
  "g_win32_input_stream_close pipe_platform None (pipe_stream TRUE False [])
     = (FALSE,
        Some \<lparr>domain = G_IO_ERROR, code = 13,
              message = ''Error closing handle: The handle is invalid.''\<rparr>,
        \<lparr>priv = \<lparr>handle = 5, close_handle = TRUE\<rparr>,
         os_world = \<lparr>pipe_open = False, pipe_data = [], last_error = 6\<rparr>,
         events = [CloseHandle_called 5, GetLastError_called]\<rparr>) \<and>
   g_win32_input_stream_new 5 TRUE = Some (priv (pipe_stream TRUE False [])) \<and>
   g_win32_input_stream_get_handle
     \<lparr>priv = \<lparr>handle = 5, close_handle = TRUE\<rparr>,
      os_world = \<lparr>pipe_open = False, pipe_data = [], last_error = 6\<rparr>,
      events = [CloseHandle_called 5, GetLastError_called]\<rparr> = 5 \<and>
   g_win32_input_stream_get_close_handle
     \<lparr>priv = \<lparr>handle = 5, close_handle = TRUE\<rparr>,
      os_world = \<lparr>pipe_open = False, pipe_data = [], last_error = 6\<rparr>,
      events = [CloseHandle_called 5, GetLastError_called]\<rparr> = TRUE"
proof -
  have run: "g_win32_input_stream_close pipe_platform None (pipe_stream TRUE False [])
     = (FALSE,
        Some \<lparr>domain = G_IO_ERROR, code = 13,
              message = ''Error closing handle: The handle is invalid.''\<rparr>,
        \<lparr>priv = \<lparr>handle = 5, close_handle = TRUE\<rparr>,
         os_world = \<lparr>pipe_open = False, pipe_data = [], last_error = 6\<rparr>,
         events = [CloseHandle_called 5, GetLastError_called]\<rparr>)"
    by (simp add: g_win32_input_stream_close_def call_CloseHandle_def call_GetLastError_def
        emit_def g_set_error_def pipe_platform_def pipe_stream_def pipe_CloseHandle_def TRUE_def)
  have new: "g_win32_input_stream_new 5 TRUE = Some (priv (pipe_stream TRUE False []))"
    by (simp add: new_stores pipe_stream_def NULL_def TRUE_def FALSE_def)
  from close_keeps_fields [OF run] run new show ?thesis
    by (simp add: pipe_stream_def g_win32_input_stream_get_handle_def
        g_win32_input_stream_get_close_handle_def)
qed

subsection \<open>Construction\<close>

text \<open>
  C6. Construction on the null handle returns the null pointer and builds no stream.
  On any other handle it builds the stream that stores this handle and the truth
  value of the flag; a flag that is \<^verbatim>\<open>TRUE\<close> or \<^verbatim>\<open>FALSE\<close> is stored as it is.
\<close>

theorem new_requires_handle:
  "(h = NULL \<longrightarrow> g_win32_input_stream_new h c = None) \<and>
   (h \<noteq> NULL \<longrightarrow>
      g_win32_input_stream_new h c
        = Some \<lparr>handle = h, close_handle = (if c \<noteq> FALSE then TRUE else FALSE)\<rparr>) \<and>
   (h \<noteq> NULL \<and> (c = TRUE \<or> c = FALSE) \<longrightarrow>
      g_win32_input_stream_new h c = Some \<lparr>handle = h, close_handle = c\<rparr>)"
  by (auto simp add: g_win32_input_stream_new_def g_object_new_def
      g_win32_input_stream_set_property_def g_win32_input_stream_init_def
      g_value_get_pointer_def g_value_get_boolean_def TRUE_def FALSE_def)

theorem new_requires_handle_witness:
  "g_win32_input_stream_new NULL TRUE = None \<and>
   (5 :: HANDLE) \<noteq> NULL \<and>
   g_win32_input_stream_new 5 FALSE = Some \<lparr>handle = 5, close_handle = FALSE\<rparr> \<and>
   g_win32_input_stream_new 5 TRUE = Some \<lparr>handle = 5, close_handle = TRUE\<rparr>"
  using new_requires_handle [of NULL TRUE] new_requires_handle [of 5 FALSE]
    new_requires_handle [of 5 TRUE]
  by (simp add: NULL_def)

subsection \<open>The flag\<close>

text \<open>
  C8. Setting the flag stores the truth value of the argument, as \<^verbatim>\<open>TRUE\<close> or
  \<^verbatim>\<open>FALSE\<close>, and touches nothing else. It notifies \<^verbatim>\<open>close-handle\<close> once when
  the stored value differs from the new one and not at all when they are equal.
  Setting the flag to \<^verbatim>\<open>TRUE\<close> twice in a row therefore notifies once in total
  when the flag was not \<^verbatim>\<open>TRUE\<close> before and never when it was; the second call
  adds no notification.
\<close>

theorem set_close_handle_notifies_on_change:
  "priv (g_win32_input_stream_set_close_handle b st)
     = (priv st)\<lparr>close_handle := (if b \<noteq> FALSE then TRUE else FALSE)\<rparr> \<and>
   os_world (g_win32_input_stream_set_close_handle b st) = os_world st \<and>
   events (g_win32_input_stream_set_close_handle b st)
     = events st @
       (if close_handle (priv st) \<noteq> (if b \<noteq> FALSE then TRUE else FALSE)
        then [Notified ''close-handle''] else []) \<and>
   events (g_win32_input_stream_set_close_handle TRUE (g_win32_input_stream_set_close_handle TRUE st))
     = events st @ (if close_handle (priv st) \<noteq> TRUE then [Notified ''close-handle''] else []) \<and>
   events (g_win32_input_stream_set_close_handle TRUE (g_win32_input_stream_set_close_handle TRUE st))
     = events (g_win32_input_stream_set_close_handle TRUE st)"
  by (simp add: g_win32_input_stream_set_close_handle_def g_object_notify_def emit_def
      TRUE_def FALSE_def Let_def)

theorem set_close_handle_notifies_on_change_witness:
  "events (g_win32_input_stream_set_close_handle TRUE
             (g_win32_input_stream_set_close_handle TRUE (pipe_stream FALSE True [])))
     = [Notified ''close-handle''] \<and>
   events (g_win32_input_stream_set_close_handle TRUE
             (g_win32_input_stream_set_close_handle TRUE (pipe_stream TRUE True []))) = [] \<and>
   priv (g_win32_input_stream_set_close_handle FALSE (pipe_stream TRUE True []))
     = \<lparr>handle = 5, close_handle = FALSE\<rparr>"
  using set_close_handle_notifies_on_change [of TRUE "pipe_stream FALSE True []"]
    set_close_handle_notifies_on_change [of TRUE "pipe_stream TRUE True []"]
    set_close_handle_notifies_on_change [of FALSE "pipe_stream TRUE True []"]
  by (simp add: pipe_stream_def TRUE_def FALSE_def)

theorem set_close_handle_twice_counterexample:
  "g_win32_input_stream_new 5 TRUE = Some (priv (pipe_stream TRUE True [])) \<and>
   length (filter is_Notified
     (events_since (pipe_stream TRUE True [])
        (g_win32_input_stream_set_close_handle TRUE
           (g_win32_input_stream_set_close_handle TRUE (pipe_stream TRUE True []))))) \<noteq> 1"
  by (simp add: g_win32_input_stream_set_close_handle_def g_object_notify_def emit_def
      events_since_def pipe_stream_def g_win32_input_stream_new_def g_object_new_def
      g_win32_input_stream_set_property_def g_win32_input_stream_init_def
      g_value_get_pointer_def g_value_get_boolean_def TRUE_def FALSE_def NULL_def Let_def)

text \<open>
  C9. After setting the flag to any 32-bit value, the flag read back is \<^verbatim>\<open>TRUE\<close>
  or \<^verbatim>\<open>FALSE\<close>, namely \<^verbatim>\<open>TRUE\<close> exactly for a nonzero argument. Setting it to a
  nonzero value and then to another nonzero value leaves the state after the first
  call unchanged, so there is no second notification. A constructed stream holds
  \<^verbatim>\<open>TRUE\<close> or \<^verbatim>\<open>FALSE\<close> as well, and reading and closing do not change the
  fields of the stream.
\<close>

theorem set_close_handle_stores_canonical_boolean:
  "(g_win32_input_stream_get_close_handle (g_win32_input_stream_set_close_handle b st) = TRUE \<or>
    g_win32_input_stream_get_close_handle (g_win32_input_stream_set_close_handle b st) = FALSE) \<and>
   g_win32_input_stream_get_close_handle (g_win32_input_stream_set_close_handle b st)
     = (if b \<noteq> FALSE then TRUE else FALSE) \<and>
   (b1 \<noteq> FALSE \<and> b2 \<noteq> FALSE \<longrightarrow>
      g_win32_input_stream_set_close_handle b2 (g_win32_input_stream_set_close_handle b1 st)
        = g_win32_input_stream_set_close_handle b1 st) \<and>
   (\<forall>s. g_win32_input_stream_new h c = Some s \<longrightarrow> close_handle s = TRUE \<or> close_handle s = FALSE) \<and>
   priv (snd (snd (snd (g_win32_input_stream_read p buffer count cancellable st)))) = priv st \<and>
   priv (snd (snd (g_win32_input_stream_close p cancellable st))) = priv st"
proof -
  have new: "close_handle s = TRUE \<or> close_handle s = FALSE"
    if "g_win32_input_stream_new h c = Some s" for s
    using that
    by (auto simp add: g_win32_input_stream_new_def g_object_new_def
        g_win32_input_stream_set_property_def g_win32_input_stream_init_def
        g_value_get_pointer_def g_value_get_boolean_def split: if_splits)
  have set: "g_win32_input_stream_get_close_handle (g_win32_input_stream_set_close_handle b st)
               = (if b \<noteq> FALSE then TRUE else FALSE)"
    by (simp add: g_win32_input_stream_set_close_handle_def g_object_notify_def emit_def
        g_win32_input_stream_get_close_handle_def TRUE_def FALSE_def Let_def)
  have twice: "g_win32_input_stream_set_close_handle b2 (g_win32_input_stream_set_close_handle b1 st)
        = g_win32_input_stream_set_close_handle b1 st" if "b1 \<noteq> FALSE" "b2 \<noteq> FALSE"
    using that
    by (simp add: g_win32_input_stream_set_close_handle_def g_object_notify_def emit_def
        TRUE_def FALSE_def Let_def)
  from new set twice read_priv [of p buffer count cancellable st] close_priv [of p cancellable st]
  show ?thesis by simp
qed

theorem set_close_handle_stores_canonical_boolean_witness:
  "(2 :: gboolean) \<noteq> FALSE \<and> (3 :: gboolean) \<noteq> FALSE \<and>
   g_win32_input_stream_get_close_handle
     (g_win32_input_stream_set_close_handle 2 (pipe_stream FALSE True [])) = TRUE \<and>
   g_win32_input_stream_set_close_handle 3
     (g_win32_input_stream_set_close_handle 2 (pipe_stream FALSE True []))
     = g_win32_input_stream_set_close_handle 2 (pipe_stream FALSE True []) \<and>
   events (g_win32_input_stream_set_close_handle 3
     (g_win32_input_stream_set_close_handle 2 (pipe_stream FALSE True [])))
     = [Notified ''close-handle''] \<and>
   g_win32_input_stream_new 5 2 = Some \<lparr>handle = 5, close_handle = TRUE\<rparr>"
proof -
  have n2: "(2 :: gboolean) \<noteq> FALSE" and n3: "(3 :: gboolean) \<noteq> FALSE"
    by (simp_all add: FALSE_def)
  have ev: "events (g_win32_input_stream_set_close_handle 2 (pipe_stream FALSE True []))
              = [Notified ''close-handle'']"
    by (simp add: g_win32_input_stream_set_close_handle_def g_object_notify_def emit_def
        pipe_stream_def FALSE_def Let_def)
  have new: "g_win32_input_stream_new 5 2 = Some \<lparr>handle = 5, close_handle = TRUE\<rparr>"
    by (simp add: g_win32_input_stream_new_def g_object_new_def
        g_win32_input_stream_set_property_def g_win32_input_stream_init_def
        g_value_get_pointer_def g_value_get_boolean_def TRUE_def FALSE_def NULL_def)
  from set_close_handle_stores_canonical_boolean
         [of 2 "pipe_stream FALSE True []" 2 3 5 2 pipe_platform "[]" 0 None]
       n2 n3 ev new
  show ?thesis by simp
qed

end
